theory Spec2Isabelle
  imports Main "HOL-Library.Sublist"
begin

section \<open>Python values used by the shop backend\<close>

text \<open>
  The backend (\<^verbatim>\<open>app.py\<close>) is a Flask application with three handlers that carry
  logic: \<^verbatim>\<open>handle_purchase\<close>, \<^verbatim>\<open>create_payment\<close> and \<^verbatim>\<open>execute_payment\<close>.
  Each handler body runs inside \<^verbatim>\<open>try: ... except Exception\<close>; the model keeps every
  raise as a value of \<open>py_exc + 'a\<close> and applies the handler's \<^verbatim>\<open>except\<close> clause
  last, as the source does. Calls to the outside world (the Discord webhook and the
  PayPal SDK) are answered by functions of an environment record, and every such call
  is appended to a trace of events. Logging is not modelled.

  Strings are lists of \<open>char\<close>, each \<open>char\<close> read as a code point below 256.
\<close>

datatype py_exc =
    AttributeError | TypeError | ValueError | OverflowError | IndexError | KeyError
  | BadRequest | UnsupportedMediaType
  | Timeout | RequestException | OtherException

subsection \<open>Strings\<close>

text \<open>\<^verbatim>\<open>s.split(sep)\<close> for a one-character separator: never empty, one more part than
  there are separators.\<close>

fun py_split :: "'a \<Rightarrow> 'a list \<Rightarrow> 'a list list" where
  "py_split d [] = [[]]"
| "py_split d (c # cs) =
     (if c = d then [] # py_split d cs
      else (case py_split d cs of [] \<Rightarrow> [[c]] | p # ps \<Rightarrow> (c # p) # ps))"

text \<open>\<^verbatim>\<open>a, b = parts\<close>: unpacking anything but two parts raises \<^verbatim>\<open>ValueError\<close>.\<close>

fun unpack_pair :: "'a list \<Rightarrow> py_exc + ('a \<times> 'a)" where
  "unpack_pair [a, b] = Inr (a, b)"
| "unpack_pair _ = Inl ValueError"

text \<open>\<^verbatim>\<open>str.isspace\<close> on code points below 256, and \<^verbatim>\<open>s.strip()\<close>.\<close>

definition is_space :: "char \<Rightarrow> bool" where
  "is_space c = (of_char c \<in> {9, 10, 11, 12, 13, 28, 29, 30, 31, 32, 133, 160 :: nat})"

definition py_strip :: "string \<Rightarrow> string" where
  "py_strip s = rev (dropWhile is_space (rev (dropWhile is_space s)))"

text \<open>\<^verbatim>\<open>s.lower()\<close> on code points below 256 and \<^verbatim>\<open>s.replace(' ', '_')\<close>.\<close>

definition lower_char :: "char \<Rightarrow> char" where
  "lower_char c = (let n = (of_char c :: nat) in
     if (65 \<le> n \<and> n \<le> 90) \<or> (192 \<le> n \<and> n \<le> 214) \<or> (216 \<le> n \<and> n \<le> 222)
     then char_of (n + 32) else c)"

definition py_lower :: "string \<Rightarrow> string" where
  "py_lower s = map lower_char s"

definition py_replace_char :: "char \<Rightarrow> char \<Rightarrow> string \<Rightarrow> string" where
  "py_replace_char a b s = map (\<lambda>c. if c = a then b else c) s"

text \<open>\<^verbatim>\<open>sep.join(parts)\<close>.\<close>

fun py_join :: "string \<Rightarrow> string list \<Rightarrow> string" where
  "py_join sep [] = []"
| "py_join sep [p] = p"
| "py_join sep (p # q # ps) = p @ sep @ py_join sep (q # ps)"

text \<open>\<^verbatim>\<open>str(n)\<close> for integers.\<close>

definition digit_char :: "nat \<Rightarrow> char" where
  "digit_char d = ''0123456789'' ! d"

fun str_nat :: "nat \<Rightarrow> string" where
  "str_nat n = (if n < 10 then [digit_char n]
                else str_nat (n div 10) @ [digit_char (n mod 10)])"

declare str_nat.simps [simp del]

definition str_int :: "int \<Rightarrow> string" where
  "str_int n = (if n < 0 then ''-'' @ str_nat (nat (- n)) else str_nat (nat n))"

subsection \<open>Floats\<close>

text \<open>
  A Python float is a double: \<open>Fin m e\<close> is the finite value \<open>m * 2 ^ e\<close>, next to the
  infinities and NaN. \<open>Fin 0 e\<close> is the zero with a plus sign and \<open>NegZero\<close> is
  \<^verbatim>\<open>-0.0\<close>: it is falsy and not below zero, and prints with its sign.
\<close>

datatype pyfloat = Fin int int | NegZero | PosInf | NegInf | NaN

fun float_lt0 :: "pyfloat \<Rightarrow> bool" where
  "float_lt0 (Fin m e) = (m < 0)"
| "float_lt0 NegZero = False"
| "float_lt0 NegInf = True"
| "float_lt0 PosInf = False"
| "float_lt0 NaN = False"

fun float_truthy :: "pyfloat \<Rightarrow> bool" where
  "float_truthy (Fin m e) = (m \<noteq> 0)"
| "float_truthy NegZero = False"
| "float_truthy PosInf = True"
| "float_truthy NegInf = True"
| "float_truthy NaN = True"

fun bit_length :: "nat \<Rightarrow> nat" where
  "bit_length n = (if n = 0 then 0 else Suc (bit_length (n div 2)))"

declare bit_length.simps [simp del]

text \<open>Division of naturals rounded to nearest, ties to even.\<close>

definition div_half_even :: "nat \<Rightarrow> nat \<Rightarrow> nat" where
  "div_half_even a b = (let q = a div b; r = a mod b in
     if b < 2 * r \<or> (2 * r = b \<and> odd q) then q + 1 else q)"

text \<open>\<^verbatim>\<open>float(n)\<close> for an integer: exact below \<open>2 ^ 53\<close>, rounded to 53 bits above,
  \<^verbatim>\<open>OverflowError\<close> when the rounded value reaches \<open>2 ^ 1024\<close>.\<close>

definition float_of_int :: "int \<Rightarrow> py_exc + pyfloat" where
  "float_of_int n = (let a = nat \<bar>n\<bar> in
     if a < 2 ^ 53 then Inr (Fin n 0)
     else (let e = bit_length a - 53; q = div_half_even a (2 ^ e) in
           if 2 ^ 1024 \<le> q * 2 ^ e then Inl OverflowError
           else Inr (Fin (sgn n * int q) (int e))))"

text \<open>\<^verbatim>\<open>format(x, '.2f')\<close>: the exact value rounded to two decimals, ties to even.\<close>

definition two_digits :: "nat \<Rightarrow> string" where
  "two_digits n = [digit_char (n div 10), digit_char (n mod 10)]"

fun fmt_2f :: "pyfloat \<Rightarrow> string" where
  "fmt_2f (Fin m e) =
     (let a = nat \<bar>m\<bar> * 100;
          c = (if 0 \<le> e then a * 2 ^ nat e else div_half_even a (2 ^ nat (- e)))
      in (if m < 0 then ''-'' else '''') @ str_nat (c div 100) @ ''.'' @ two_digits (c mod 100))"
| "fmt_2f NegZero = ''-0.00''"
| "fmt_2f PosInf = ''inf''"
| "fmt_2f NegInf = ''-inf''"
| "fmt_2f NaN = ''nan''"

text \<open>
  \<^verbatim>\<open>str(x)\<close> for a float. An integer-valued float below \<open>10 ^ 16\<close> in magnitude prints
  as its digits followed by \<^verbatim>\<open>.0\<close>; the shortest round-trip digits of every other finite
  float are left to the parameter \<open>other\<close>.
\<close>

definition float_int_value :: "int \<Rightarrow> int \<Rightarrow> int option" where
  "float_int_value m e =
     (if 0 \<le> e then Some (m * 2 ^ nat e)
      else if 2 ^ nat (- e) dvd m then Some (m div 2 ^ nat (- e)) else None)"

definition py_str_float :: "(pyfloat \<Rightarrow> string) \<Rightarrow> pyfloat \<Rightarrow> string" where
  "py_str_float other x =
     (case x of
        PosInf \<Rightarrow> ''inf'' | NegInf \<Rightarrow> ''-inf'' | NaN \<Rightarrow> ''nan''
      | NegZero \<Rightarrow> ''-0.0''
      | Fin m e \<Rightarrow>
          (case float_int_value m e of
             None \<Rightarrow> other x
           | Some v \<Rightarrow> if \<bar>v\<bar> < 10 ^ 16 then str_int v @ ''.0'' else other x))"

subsection \<open>JSON values\<close>

text \<open>What \<^verbatim>\<open>request.get_json()\<close> returns: \<^verbatim>\<open>None\<close>, \<^verbatim>\<open>bool\<close>, \<^verbatim>\<open>int\<close>, \<^verbatim>\<open>float\<close>,
  \<^verbatim>\<open>str\<close>, \<^verbatim>\<open>list\<close> or \<^verbatim>\<open>dict\<close> (its items, first binding of a key read).\<close>

datatype json =
    JNull | JBool bool | JInt int | JFloat pyfloat | JString string
  | JArray "json list" | JObject "(string \<times> json) list"

text \<open>Truthiness, as \<^verbatim>\<open>not x\<close> tests it.\<close>

fun truthy :: "json \<Rightarrow> bool" where
  "truthy JNull = False"
| "truthy (JBool b) = b"
| "truthy (JInt n) = (n \<noteq> 0)"
| "truthy (JFloat x) = float_truthy x"
| "truthy (JString s) = (s \<noteq> [])"
| "truthy (JArray xs) = (xs \<noteq> [])"
| "truthy (JObject kv) = (kv \<noteq> [])"

text \<open>A list and a dict cannot be hashed: using one as a dict key, or testing it with
  \<^verbatim>\<open>in\<close> against a dict, raises \<^verbatim>\<open>TypeError\<close>. Every other value can.\<close>

fun hashable :: "json \<Rightarrow> bool" where
  "hashable (JArray xs) = False"
| "hashable (JObject kv) = False"
| "hashable _ = True"

text \<open>\<^verbatim>\<open>data.get(k)\<close>, \<^verbatim>\<open>data.get(k, default)\<close> and \<^verbatim>\<open>data[k]\<close> on a dict.\<close>

definition dict_get :: "(string \<times> json) list \<Rightarrow> string \<Rightarrow> json" where
  "dict_get kv k = (case map_of kv k of None \<Rightarrow> JNull | Some v \<Rightarrow> v)"

definition dict_get_default :: "(string \<times> json) list \<Rightarrow> string \<Rightarrow> json \<Rightarrow> json" where
  "dict_get_default kv k d = (case map_of kv k of None \<Rightarrow> d | Some v \<Rightarrow> v)"

definition dict_index :: "(string \<times> json) list \<Rightarrow> string \<Rightarrow> py_exc + json" where
  "dict_index kv k = (case map_of kv k of None \<Rightarrow> Inl KeyError | Some v \<Rightarrow> Inr v)"

text \<open>\<^verbatim>\<open>v.strip()\<close>: only a string has the method.\<close>

fun strip_value :: "json \<Rightarrow> py_exc + string" where
  "strip_value (JString s) = Inr (py_strip s)"
| "strip_value _ = Inl AttributeError"

text \<open>\<^verbatim>\<open>float(v)\<close>; \<open>parse\<close> is \<^verbatim>\<open>float\<close> on a string, \<open>None\<close> where it raises
  \<^verbatim>\<open>ValueError\<close>.\<close>

fun py_float :: "(string \<Rightarrow> pyfloat option) \<Rightarrow> json \<Rightarrow> py_exc + pyfloat" where
  "py_float parse JNull = Inl TypeError"
| "py_float parse (JBool b) = Inr (Fin (if b then 1 else 0) 0)"
| "py_float parse (JInt n) = float_of_int n"
| "py_float parse (JFloat x) = Inr x"
| "py_float parse (JString s) = (case parse s of None \<Rightarrow> Inl ValueError | Some x \<Rightarrow> Inr x)"
| "py_float parse (JArray xs) = Inl TypeError"
| "py_float parse (JObject kv) = Inl TypeError"

section \<open>Requests, responses and the outside world\<close>

text \<open>
  Of a Flask request the handlers read \<^verbatim>\<open>is_json\<close>, \<^verbatim>\<open>get_json()\<close>, \<^verbatim>\<open>args\<close> and
  \<^verbatim>\<open>url_root\<close>. \<open>json_body\<close> is \<open>None\<close> when the body does not parse.
\<close>

record request =
  is_json :: bool
  json_body :: "json option"
  args :: "(string \<times> string) list"
  url_root :: string

text \<open>\<^verbatim>\<open>request.get_json()\<close>: a content type other than JSON and a body that does not
  parse both raise (an \<^verbatim>\<open>HTTPException\<close>, which \<^verbatim>\<open>except Exception\<close> catches).\<close>

definition get_json :: "request \<Rightarrow> py_exc + json" where
  "get_json req =
     (if \<not> is_json req then Inl UnsupportedMediaType
      else (case json_body req of None \<Rightarrow> Inl BadRequest | Some v \<Rightarrow> Inr v))"

text \<open>\<^verbatim>\<open>request.args.get(k)\<close>: the first value of the query parameter, or \<^verbatim>\<open>None\<close>.\<close>

definition args_get :: "request \<Rightarrow> string \<Rightarrow> string option" where
  "args_get req k = map_of (args req) k"

text \<open>
  A response is a body and a status code. The payment confirmation page is an HTML
  template with three holes (user name, product name, formatted amount); the model keeps
  the three values and not the markup around them.
\<close>

datatype body =
    JsonBody json
  | TextBody string
  | PaymentSuccessPage string string string

datatype response = Response (resp_body: body) (resp_status: nat)

definition json_error :: "string \<Rightarrow> nat \<Rightarrow> response" where
  "json_error msg code = Response (JsonBody (JObject [(''error'', JString msg)])) code"

definition json_error_message :: "string \<Rightarrow> string \<Rightarrow> nat \<Rightarrow> response" where
  "json_error_message msg detail code =
     Response (JsonBody (JObject [(''error'', JString msg), (''message'', JString detail)])) code"

text \<open>The \<^verbatim>\<open>error\<close> field of a JSON error response, where there is one.\<close>

definition error_of :: "response \<Rightarrow> string option" where
  "error_of r =
     (case resp_body r of
        JsonBody (JObject kv) \<Rightarrow>
          (case map_of kv ''error'' of Some (JString msg) \<Rightarrow> Some msg | _ \<Rightarrow> None)
      | _ \<Rightarrow> None)"

text \<open>
  The two Discord messages are templates as well: \<open>PurchaseMade username item price\<close>
  is the content built by \<^verbatim>\<open>handle_purchase\<close>, and
  \<open>PaymentSuccessful username product amount payment_id\<close> the one built by
  \<^verbatim>\<open>execute_payment\<close>, the amounts formatted with \<^verbatim>\<open>.2f\<close>.
\<close>

datatype discord_message =
    PurchaseMade string string string
  | PaymentSuccessful string string string string

datatype post_result = HttpResponse nat string | PostRaises py_exc

text \<open>The dictionary handed to \<^verbatim>\<open>paypalrestsdk.Payment\<close> by \<^verbatim>\<open>create_payment\<close>.\<close>

record line_item =
  item_name :: string
  item_sku :: string
  item_price :: string
  item_currency :: string
  item_quantity :: nat
  item_description :: string

record transaction_intent =
  txi_items :: "line_item list"
  txi_total :: string
  txi_currency :: string
  txi_description :: string
  txi_custom :: string

record payment_intent =
  pi_intent :: string
  pi_payment_method :: string
  pi_return_url :: string
  pi_cancel_url :: string
  pi_transactions :: "transaction_intent list"

record link =
  link_rel :: string
  link_href :: string

datatype create_result = Created "link list" | Rejected string

text \<open>What \<^verbatim>\<open>execute_payment\<close> reads of a payment found at the provider: its id and,
  of each transaction, the \<^verbatim>\<open>custom\<close> field (absent: \<open>None\<close>) and \<^verbatim>\<open>amount.total\<close>.\<close>

record transaction =
  tx_custom :: "string option"
  tx_total :: string

record payment =
  pay_id :: string
  pay_transactions :: "transaction list"

datatype event =
    WebhookPost string discord_message
  | PaymentCreate payment_intent
  | PaymentFind string
  | PaymentExecute string string

text \<open>
  The environment: the webhook URL read from \<^verbatim>\<open>DISCORD_WEBHOOK_URL\<close> at start-up, the
  parts of Python's float and container printing that are not written out above, and
  the answers of the webhook (\<^verbatim>\<open>requests.post\<close>) and of the provider
  (\<^verbatim>\<open>payment.create()\<close>, \<^verbatim>\<open>Payment.find\<close>, \<^verbatim>\<open>payment.execute\<close>, which returns its
  verdict and leaves the payment updated).
\<close>

record env =
  DISCORD_WEBHOOK :: string
  float_of_str :: "string \<Rightarrow> pyfloat option"
  repr_float :: "pyfloat \<Rightarrow> string"
  repr_container :: "json \<Rightarrow> string"
  requests_post :: "string \<Rightarrow> discord_message \<Rightarrow> post_result"
  payment_create :: "payment_intent \<Rightarrow> py_exc + create_result"
  payment_find :: "string \<Rightarrow> py_exc + payment"
  payment_execute :: "payment \<Rightarrow> string \<Rightarrow> py_exc + (bool \<times> payment)"

text \<open>A value inside an f-string: \<^verbatim>\<open>str(v)\<close>.\<close>

fun py_format :: "env \<Rightarrow> json \<Rightarrow> string" where
  "py_format E (JString s) = s"
| "py_format E JNull = ''None''"
| "py_format E (JBool b) = (if b then ''True'' else ''False'')"
| "py_format E (JInt n) = str_int n"
| "py_format E (JFloat x) = py_str_float (repr_float E) x"
| "py_format E v = repr_container E v"

section \<open>The product catalog\<close>

record product =
  product_price :: pyfloat
  product_description :: string

definition PRODUCTS :: "(string \<times> product) list" where
  "PRODUCTS =
    [(''Mod'',
        \<lparr>product_price = Fin 3 0,
         product_description = ''Get Fly, Larger Anti-Raid Zone, Teleport and Mod Kits''\<rparr>),
     (''Mod+'',
        \<lparr>product_price = Fin 7 0,
         product_description =
           ''Get Fly, XL Anti-Raid Zone, Teleport Players and Admin Kits w/Command Access''\<rparr>),
     (''Hardcore VIP 1 Month'',
        \<lparr>product_price = Fin 3 0,
         product_description = ''VIP Kit and Rank for 1 month''\<rparr>),
     (''Hardcore VIP Perma'',
        \<lparr>product_price = Fin 30 0,
         product_description = ''VIP Kit and Rank with a server Tag''\<rparr>),
     (''Ultra Server Rank Package'',
        \<lparr>product_price = Fin 50 0,
         product_description =
           ''Mod+ on Oxide Build-A-Base, Perma Hardcore VIP, Ultra Tag, 3 Custom Tag Roll Tokens, 2 Custom Tag Token''\<rparr>)]"

section \<open>\<^verbatim>\<open>handle_purchase\<close>: POST /purchase\<close>

definition required_fields :: "string list" where
  "required_fields = [''username'', ''item'', ''price'']"

definition purchase_success :: "string \<Rightarrow> string \<Rightarrow> pyfloat \<Rightarrow> response" where
  "purchase_success username item price =
     Response (JsonBody (JObject
       [(''status'', JString ''success''),
        (''message'', JString ''Purchase recorded and Discord notification sent!''),
        (''data'', JObject [(''username'', JString username), (''item'', JString item),
                           (''price'', JFloat price)])])) 200"

definition missing_fields_response :: "string list \<Rightarrow> response" where
  "missing_fields_response missing_fields =
     Response (JsonBody (JObject
       [(''error'', JString (''Missing required fields: '' @ py_join '', '' missing_fields)),
        (''required_fields'', JArray (map JString required_fields))])) 400"

text \<open>The webhook call and its three \<^verbatim>\<open>except\<close>-free outcomes and two handled
  exceptions; any other exception leaves the inner \<^verbatim>\<open>try\<close>.\<close>

definition send_purchase_notification ::
  "env \<Rightarrow> string \<Rightarrow> string \<Rightarrow> pyfloat \<Rightarrow> (py_exc + response) \<times> event list" where
  "send_purchase_notification E username item price =
     (let discord_message = PurchaseMade username item (fmt_2f price) in
      ((case requests_post E (DISCORD_WEBHOOK E) discord_message of
          HttpResponse code txt \<Rightarrow>
            if code = 200 \<or> code = 204 then Inr (purchase_success username item price)
            else Inr (json_error_message ''Failed to send Discord notification''
                        (''Discord API returned status '' @ str_nat code) 500)
        | PostRaises e \<Rightarrow>
            if e = Timeout then
              Inr (json_error_message ''Discord notification timeout''
                     ''The Discord webhook request timed out'' 500)
            else if e = RequestException then
              Inr (json_error_message ''Failed to send Discord notification''
                     ''Could not connect to Discord webhook'' 500)
            else Inl e),
       [WebhookPost (DISCORD_WEBHOOK E) discord_message]))"

text \<open>The body of the outer \<^verbatim>\<open>try\<close>.\<close>

definition handle_purchase_try :: "env \<Rightarrow> request \<Rightarrow> (py_exc + response) \<times> event list" where
  "handle_purchase_try E req =
     (if \<not> is_json req then (Inr (json_error ''Content-Type must be application/json'' 400), [])
      else case get_json req of
        Inl e \<Rightarrow> (Inl e, [])
      | Inr (JObject data) \<Rightarrow>
          (let missing_fields = filter (\<lambda>field. \<not> truthy (dict_get data field)) required_fields in
           if missing_fields \<noteq> [] then (Inr (missing_fields_response missing_fields), [])
           else case dict_index data ''username'' of
             Inl e \<Rightarrow> (Inl e, [])
           | Inr u \<Rightarrow>
          (case strip_value u of
             Inl e \<Rightarrow> (Inl e, [])
           | Inr username \<Rightarrow>
          (case dict_index data ''item'' of
             Inl e \<Rightarrow> (Inl e, [])
           | Inr i \<Rightarrow>
          (case strip_value i of
             Inl e \<Rightarrow> (Inl e, [])
           | Inr item \<Rightarrow>
          (case dict_index data ''price'' of
             Inl e \<Rightarrow> (Inl e, [])
           | Inr p \<Rightarrow>
             if username = [] then (Inr (json_error ''Username cannot be empty'' 400), [])
             else if item = [] then (Inr (json_error ''Item cannot be empty'' 400), [])
             else (case py_float (float_of_str E) p of
                Inl e \<Rightarrow>
                  if e = ValueError \<or> e = TypeError
                  then (Inr (json_error ''Price must be a valid number'' 400), [])
                  else (Inl e, [])
              | Inr price \<Rightarrow>
                  if float_lt0 price then (Inr (json_error ''Price cannot be negative'' 400), [])
                  else if DISCORD_WEBHOOK E = [] then
                    (Inr (json_error_message ''Discord webhook not configured''
                            ''Please set DISCORD_WEBHOOK_URL environment variable'' 500), [])
                  else send_purchase_notification E username item price))))))
      | Inr _ \<Rightarrow> (Inl AttributeError, []))"

text \<open>\<^verbatim>\<open>except Exception\<close>: whatever the body raised becomes the generic 500.\<close>

definition handle_purchase :: "env \<Rightarrow> request \<Rightarrow> response \<times> event list" where
  "handle_purchase E req =
     (case handle_purchase_try E req of
        (Inr r, tr) \<Rightarrow> (r, tr)
      | (Inl e, tr) \<Rightarrow>
          (json_error_message ''Internal server error''
             ''An unexpected error occurred while processing the purchase'' 500, tr))"

section \<open>\<^verbatim>\<open>create_payment\<close>: POST /create-payment\<close>

text \<open>\<^verbatim>\<open>not product_name or product_name not in PRODUCTS\<close>: a falsy value is rejected
  before the lookup; the lookup hashes its key, so a non-empty list or dict raises
  \<^verbatim>\<open>TypeError\<close>; the keys are strings, so no other non-string is among them.\<close>

definition invalid_product :: "json \<Rightarrow> py_exc + bool" where
  "invalid_product product_name =
     (if \<not> truthy product_name then Inr True
      else case product_name of
        JString s \<Rightarrow> Inr (map_of PRODUCTS s = None)
      | JArray xs \<Rightarrow> Inl TypeError
      | JObject kv \<Rightarrow> Inl TypeError
      | _ \<Rightarrow> Inr True)"

text \<open>\<^verbatim>\<open>f"{username}|{product_name}"\<close>, the \<^verbatim>\<open>custom\<close> field of the transaction.\<close>

definition custom_metadata :: "string \<Rightarrow> string \<Rightarrow> string" where
  "custom_metadata username product_name = username @ ''|'' @ product_name"

definition build_payment ::
  "env \<Rightarrow> request \<Rightarrow> string \<Rightarrow> product \<Rightarrow> json \<Rightarrow> payment_intent" where
  "build_payment E req product_name product username =
     \<lparr>pi_intent = ''sale'',
      pi_payment_method = ''paypal'',
      pi_return_url = url_root req @ ''execute-payment'',
      pi_cancel_url = url_root req @ ''cancel-payment'',
      pi_transactions =
        [\<lparr>txi_items =
            [\<lparr>item_name = product_name,
              item_sku = py_replace_char (CHR '' '') (CHR ''_'') (py_lower product_name),
              item_price = py_str_float (repr_float E) (product_price product),
              item_currency = ''USD'',
              item_quantity = 1,
              item_description = product_description product\<rparr>],
          txi_total = py_str_float (repr_float E) (product_price product),
          txi_currency = ''USD'',
          txi_description = product_name @ '' purchase for '' @ py_format E username,
          txi_custom = custom_metadata (py_format E username) product_name\<rparr>]\<rparr>"

text \<open>\<^verbatim>\<open>payment.create()\<close> and the scan of the links. When no link has the relation
  \<^verbatim>\<open>approval_url\<close> the function ends without a \<^verbatim>\<open>return\<close>: \<open>None\<close>.\<close>

definition submit_payment ::
  "env \<Rightarrow> payment_intent \<Rightarrow> (py_exc + response option) \<times> event list" where
  "submit_payment E payment =
     ((case payment_create E payment of
         Inl e \<Rightarrow> Inl e
       | Inr (Created links) \<Rightarrow>
           Inr (case find (\<lambda>l. link_rel l = ''approval_url'') links of
                  None \<Rightarrow> None
                | Some l \<Rightarrow>
                    Some (Response (JsonBody (JObject [(''approval_url'', JString (link_href l))])) 200))
       | Inr (Rejected err) \<Rightarrow> Inr (Some (json_error ''Payment creation failed'' 500))),
      [PaymentCreate payment])"

definition create_payment_try ::
  "env \<Rightarrow> request \<Rightarrow> (py_exc + response option) \<times> event list" where
  "create_payment_try E req =
     (case get_json req of
        Inl e \<Rightarrow> (Inl e, [])
      | Inr (JObject data) \<Rightarrow>
          (let product_name = dict_get data ''product'';
               username = dict_get_default data ''username'' (JString ''Anonymous'')
           in case invalid_product product_name of
                Inl e \<Rightarrow> (Inl e, [])
              | Inr True \<Rightarrow> (Inr (Some (json_error ''Invalid product'' 400)), [])
              | Inr False \<Rightarrow>
                  (case product_name of
                     JString name \<Rightarrow>
                       (case map_of PRODUCTS name of
                          None \<Rightarrow> (Inl KeyError, [])
                        | Some product \<Rightarrow>
                            submit_payment E (build_payment E req name product username))
                   | _ \<Rightarrow> (Inl KeyError, [])))
      | Inr _ \<Rightarrow> (Inl AttributeError, []))"

definition create_payment :: "env \<Rightarrow> request \<Rightarrow> response option \<times> event list" where
  "create_payment E req =
     (case create_payment_try E req of
        (Inr r, tr) \<Rightarrow> (r, tr)
      | (Inl e, tr) \<Rightarrow> (Some (json_error ''Internal server error'' 500), tr))"

section \<open>\<^verbatim>\<open>execute_payment\<close>: GET /execute-payment\<close>

text \<open>\<^verbatim>\<open>username, product_name = custom_data.split('|')\<close>.\<close>

definition decode_custom :: "string \<Rightarrow> py_exc + (string \<times> string)" where
  "decode_custom custom_data = unpack_pair (py_split (CHR ''|'') custom_data)"

text \<open>\<^verbatim>\<open>payment.transactions[0]\<close>.\<close>

definition first_transaction :: "payment \<Rightarrow> py_exc + transaction" where
  "first_transaction p = (case pay_transactions p of [] \<Rightarrow> Inl IndexError | t # _ \<Rightarrow> Inr t)"

text \<open>The notification of a completed payment: \<^verbatim>\<open>try: requests.post(...) except: pass\<close>.
  The bare \<^verbatim>\<open>except\<close> takes every exception, and the answer is not read.\<close>

definition notify_payment :: "env \<Rightarrow> discord_message \<Rightarrow> (py_exc + unit) \<times> event list" where
  "notify_payment E discord_message =
     ((case requests_post E (DISCORD_WEBHOOK E) discord_message of
         HttpResponse code txt \<Rightarrow> Inr ()
       | PostRaises e \<Rightarrow> Inr ()),
      [WebhookPost (DISCORD_WEBHOOK E) discord_message])"

text \<open>The branch taken when \<^verbatim>\<open>payment.execute\<close> returned true.\<close>

definition payment_successful :: "env \<Rightarrow> payment \<Rightarrow> (py_exc + response) \<times> event list" where
  "payment_successful E p =
     (case first_transaction p of
        Inl e \<Rightarrow> (Inl e, [])
      | Inr t \<Rightarrow>
     (case tx_custom t of
        None \<Rightarrow> (Inl AttributeError, [])
      | Some custom_data \<Rightarrow>
     (case decode_custom custom_data of
        Inl e \<Rightarrow> (Inl e, [])
      | Inr (username, product_name) \<Rightarrow>
     (case float_of_str E (tx_total t) of
        None \<Rightarrow> (Inl ValueError, [])
      | Some price \<Rightarrow>
          (let page = Response (PaymentSuccessPage username product_name (fmt_2f price)) 200 in
           if DISCORD_WEBHOOK E \<noteq> [] then
             (case notify_payment E
                     (PaymentSuccessful username product_name (fmt_2f price) (pay_id p)) of
                (Inl e, tr) \<Rightarrow> (Inl e, tr)
              | (Inr u, tr) \<Rightarrow> (Inr page, tr))
           else (Inr page, []))))))"

definition missing_payment_information :: response where
  "missing_payment_information =
     Response (TextBody ''Payment execution failed: Missing payment information'') 400"

definition execute_payment_try :: "env \<Rightarrow> request \<Rightarrow> (py_exc + response) \<times> event list" where
  "execute_payment_try E req =
     (case args_get req ''paymentId'' of
        None \<Rightarrow> (Inr missing_payment_information, [])
      | Some payment_id \<Rightarrow>
     (case args_get req ''PayerID'' of
        None \<Rightarrow> (Inr missing_payment_information, [])
      | Some payer_id \<Rightarrow>
          if payment_id = [] \<or> payer_id = [] then (Inr missing_payment_information, [])
          else (case payment_find E payment_id of
             Inl e \<Rightarrow> (Inl e, [PaymentFind payment_id])
           | Inr found \<Rightarrow>
               (case payment_execute E found payer_id of
                  Inl e \<Rightarrow> (Inl e, [PaymentFind payment_id, PaymentExecute (pay_id found) payer_id])
                | Inr (ok, p) \<Rightarrow>
                    if ok then
                      (case payment_successful E p of
                         (r, tr) \<Rightarrow>
                           (r, [PaymentFind payment_id, PaymentExecute (pay_id found) payer_id] @ tr))
                    else
                      (Inr (Response (TextBody ''Payment execution failed'') 500),
                       [PaymentFind payment_id, PaymentExecute (pay_id found) payer_id])))))"

definition execute_payment :: "env \<Rightarrow> request \<Rightarrow> response \<times> event list" where
  "execute_payment E req =
     (case execute_payment_try E req of
        (Inr r, tr) \<Rightarrow> (r, tr)
      | (Inl e, tr) \<Rightarrow> (Response (TextBody ''Payment execution error'') 500, tr))"

section \<open>Example environments and requests\<close>

text \<open>A provider record as \<^verbatim>\<open>create_payment\<close> leaves it for product \<^verbatim>\<open>Mod\<close>, with
  the given \<^verbatim>\<open>custom\<close> field.\<close>

definition example_payment :: "string \<Rightarrow> payment" where
  "example_payment custom =
     \<lparr>pay_id = ''PAY-1'',
      pay_transactions = [\<lparr>tx_custom = Some custom, tx_total = ''3.0''\<rparr>]\<rparr>"

text \<open>An environment in which everything works: the webhook is configured and answers
  204, the provider accepts the payment, finds it and executes it.\<close>

definition example_env :: env where
  "example_env =
     \<lparr>DISCORD_WEBHOOK = ''https://discord.example/api/webhooks/1'',
      float_of_str = (\<lambda>s. if s = ''3.0'' then Some (Fin 3 0)
                          else if s = ''0'' then Some (Fin 0 0) else None),
      repr_float = (\<lambda>x. []),
      repr_container = (\<lambda>v. []),
      requests_post = (\<lambda>url m. HttpResponse 204 []),
      payment_create = (\<lambda>p. Inr (Created
         [\<lparr>link_rel = ''self'', link_href = ''https://paypal.example/payment/PAY-1''\<rparr>,
          \<lparr>link_rel = ''approval_url'', link_href = ''https://paypal.example/approve/PAY-1''\<rparr>])),
      payment_find = (\<lambda>i. Inr (example_payment ''alice|Mod'')),
      payment_execute = (\<lambda>p payer. Inr (True, p))\<rparr>"

text \<open>The same with a webhook that times out, with a provider that rejects the
  execution, and with a provider whose record carries a \<^verbatim>\<open>custom\<close> field without
  delimiter.\<close>

definition timeout_env :: env where
  "timeout_env = example_env\<lparr>requests_post := (\<lambda>url m. PostRaises Timeout)\<rparr>"

definition rejecting_env :: env where
  "rejecting_env = example_env\<lparr>payment_execute := (\<lambda>p payer. Inr (False, p))\<rparr>"

definition tampered_env :: env where
  "tampered_env = example_env\<lparr>payment_find := (\<lambda>i. Inr (example_payment ''aliceMod''))\<rparr>"

text \<open>A provider whose record has well-formed metadata and a total that is no number.\<close>

definition bad_total_env :: env where
  "bad_total_env = example_env\<lparr>payment_find := (\<lambda>i. Inr
     \<lparr>pay_id = ''PAY-1'',
      pay_transactions = [\<lparr>tx_custom = Some ''alice|Mod'', tx_total = ''abc''\<rparr>]\<rparr>)\<rparr>"

definition json_request :: "(string \<times> json) list \<Rightarrow> request" where
  "json_request data =
     \<lparr>is_json = True, json_body = Some (JObject data), args = [],
      url_root = ''https://shop.example/''\<rparr>"

definition callback_request :: "(string \<times> string) list \<Rightarrow> request" where
  "callback_request query =
     \<lparr>is_json = False, json_body = None, args = query, url_root = ''https://shop.example/''\<rparr>"

section \<open>Auxiliary facts\<close>

lemma py_split_no_delim: "d \<notin> set s \<Longrightarrow> py_split d s = [s]"
  by (induction s) auto

lemma py_split_append: "d \<notin> set u \<Longrightarrow> py_split d (u @ d # p) = u # py_split d p"
  by (induction u) auto

lemma unpack_pair_length: "length xs \<noteq> 2 \<Longrightarrow> unpack_pair xs = Inl ValueError"
  by (cases xs rule: unpack_pair.cases) auto

lemmas example_defs =
  example_env_def timeout_env_def rejecting_env_def tampered_env_def bad_total_env_def
  example_payment_def
  json_request_def callback_request_def args_get_def






section \<open>The purchase metadata\<close>

text \<open>
  C1. The \<^verbatim>\<open>custom\<close> field written by \<^verbatim>\<open>create_payment\<close> is the user name, a bar and
  the product name; \<^verbatim>\<open>execute_payment\<close> splits it at the bars and unpacks two parts.
  When neither the user name nor the product name contains a bar, decoding the encoded
  pair gives the pair back.
\<close>

theorem custom_metadata_roundtrip:
  assumes "CHR ''|'' \<notin> set username" and "CHR ''|'' \<notin> set product_name"
  shows "decode_custom (custom_metadata username product_name) = Inr (username, product_name)
       \<and> map txi_custom
            (pi_transactions (build_payment E req product_name product (JString username)))
           = [custom_metadata username product_name]"
  using assms
  by (simp add: decode_custom_def custom_metadata_def build_payment_def
      py_split_append py_split_no_delim)

theorem custom_metadata_roundtrip_witness:
  "CHR ''|'' \<notin> set ''alice'' \<and> CHR ''|'' \<notin> set ''Mod''
   \<and> custom_metadata ''alice'' ''Mod'' = ''alice|Mod''
   \<and> decode_custom (custom_metadata ''alice'' ''Mod'') = Inr (''alice'', ''Mod'')"
  using custom_metadata_roundtrip [of "''alice''" "''Mod''"]
  by (simp add: custom_metadata_def)

section \<open>Executing a payment\<close>

text \<open>
  C5. When the query of an \<^verbatim>\<open>/execute-payment\<close> request lacks \<^verbatim>\<open>paymentId\<close> or
  \<^verbatim>\<open>PayerID\<close>, the handler answers 400 with the missing-information text and the
  provider is not called: the trace of outside calls is empty.
\<close>

theorem execute_payment_missing_info:
  assumes "args_get req ''paymentId'' = None \<or> args_get req ''PayerID'' = None"
  shows "execute_payment E req =
           (Response (TextBody ''Payment execution failed: Missing payment information'') 400, [])"
  using assms
  by (auto simp: execute_payment_def execute_payment_try_def missing_payment_information_def
      split: option.splits)

theorem execute_payment_missing_info_witness:
  "args_get (callback_request [(''paymentId'', ''PAY-1'')]) ''PayerID'' = None
   \<and> execute_payment example_env (callback_request [(''paymentId'', ''PAY-1'')])
       = (Response (TextBody ''Payment execution failed: Missing payment information'') 400, [])"
  using execute_payment_missing_info [of "callback_request [(''paymentId'', ''PAY-1'')]" example_env]
  by (simp add: args_get_def callback_request_def)



text \<open>
  C7. When the provider finds the payment and \<^verbatim>\<open>payment.execute\<close> returns false, the
  handler answers 500 with the text of a failed execution; the provider was asked to
  find and to execute, and no notification went to the webhook.
\<close>

theorem execute_payment_rejected:
  assumes "args_get req ''paymentId'' = Some payment_id" and "payment_id \<noteq> []"
    and "args_get req ''PayerID'' = Some payer_id" and "payer_id \<noteq> []"
    and "payment_find E payment_id = Inr found"
    and "payment_execute E found payer_id = Inr (False, p)"
  shows "execute_payment E req =
           (Response (TextBody ''Payment execution failed'') 500,
            [PaymentFind payment_id, PaymentExecute (pay_id found) payer_id])
         \<and> (\<forall>url m. WebhookPost url m \<notin> set (snd (execute_payment E req)))"
  using assms
  by (simp add: execute_payment_def execute_payment_try_def)

theorem execute_payment_rejected_witness:
  "args_get (callback_request [(''paymentId'', ''PAY-1''), (''PayerID'', ''PAYER-9'')])
        ''paymentId'' = Some ''PAY-1''
   \<and> args_get (callback_request [(''paymentId'', ''PAY-1''), (''PayerID'', ''PAYER-9'')])
        ''PayerID'' = Some ''PAYER-9''
   \<and> payment_find rejecting_env ''PAY-1'' = Inr (example_payment ''alice|Mod'')
   \<and> payment_execute rejecting_env (example_payment ''alice|Mod'') ''PAYER-9''
        = Inr (False, example_payment ''alice|Mod'')
   \<and> execute_payment rejecting_env
        (callback_request [(''paymentId'', ''PAY-1''), (''PayerID'', ''PAYER-9'')])
      = (Response (TextBody ''Payment execution failed'') 500,
         [PaymentFind ''PAY-1'', PaymentExecute ''PAY-1'' ''PAYER-9''])"
  using execute_payment_rejected
    [of "callback_request [(''paymentId'', ''PAY-1''), (''PayerID'', ''PAYER-9'')]"
        "''PAY-1''" "''PAYER-9''" rejecting_env "example_payment ''alice|Mod''"
        "example_payment ''alice|Mod''"]
  by (simp add: example_defs)

text \<open>
  C8 (as the code has it). When the provider executed the payment and the \<^verbatim>\<open>custom\<close>
  field of its first transaction does not split at the bars into exactly two parts (no
  bar, or more than one), the unpacking raises \<^verbatim>\<open>ValueError\<close> inside the handler's
  \<^verbatim>\<open>try\<close>. The handler does not crash: its catch-all \<^verbatim>\<open>except\<close> clause takes the
  exception and answers with the generic execution error and status 500, the answer to
  every unexpected exception. No notification is sent.
\<close>

theorem execute_payment_malformed_metadata:
  assumes "args_get req ''paymentId'' = Some payment_id" and "payment_id \<noteq> []"
    and "args_get req ''PayerID'' = Some payer_id" and "payer_id \<noteq> []"
    and "payment_find E payment_id = Inr found"
    and "payment_execute E found payer_id = Inr (True, p)"
    and "pay_transactions p = t # ts" and "tx_custom t = Some custom_data"
    and "length (py_split (CHR ''|'') custom_data) \<noteq> 2"
  shows "execute_payment_try E req =
           (Inl ValueError, [PaymentFind payment_id, PaymentExecute (pay_id found) payer_id])
         \<and> execute_payment E req =
           (Response (TextBody ''Payment execution error'') 500,
            [PaymentFind payment_id, PaymentExecute (pay_id found) payer_id])"
  using assms
  by (simp add: execute_payment_def execute_payment_try_def payment_successful_def
      first_transaction_def decode_custom_def unpack_pair_length)

theorem execute_payment_malformed_metadata_witness:
  "length (py_split (CHR ''|'') ''aliceMod'') \<noteq> 2
   \<and> payment_find tampered_env ''PAY-1'' = Inr (example_payment ''aliceMod'')
   \<and> payment_execute tampered_env (example_payment ''aliceMod'') ''PAYER-9''
        = Inr (True, example_payment ''aliceMod'')
   \<and> execute_payment tampered_env
        (callback_request [(''paymentId'', ''PAY-1''), (''PayerID'', ''PAYER-9'')])
      = (Response (TextBody ''Payment execution error'') 500,
         [PaymentFind ''PAY-1'', PaymentExecute ''PAY-1'' ''PAYER-9''])"
  using execute_payment_malformed_metadata
    [of "callback_request [(''paymentId'', ''PAY-1''), (''PayerID'', ''PAYER-9'')]"
        "''PAY-1''" "''PAYER-9''" tampered_env "example_payment ''aliceMod''"
        "example_payment ''aliceMod''"
        "\<lparr>tx_custom = Some ''aliceMod'', tx_total = ''3.0''\<rparr>" "[]" "''aliceMod''"]
  by (simp add: example_defs)

text \<open>The handler has no error of its own for malformed metadata. A record with
  well-formed metadata and a total that does not parse gets the very same answer, so
  the answer does not report the metadata as the cause.\<close>

theorem execute_payment_malformed_metadata_counterexample:
  "decode_custom ''aliceMod'' = Inl ValueError
   \<and> decode_custom ''alice|Mod'' = Inr (''alice'', ''Mod'')
   \<and> execute_payment tampered_env
        (callback_request [(''paymentId'', ''PAY-1''), (''PayerID'', ''PAYER-9'')])
      = (Response (TextBody ''Payment execution error'') 500,
         [PaymentFind ''PAY-1'', PaymentExecute ''PAY-1'' ''PAYER-9''])
   \<and> execute_payment bad_total_env
        (callback_request [(''paymentId'', ''PAY-1''), (''PayerID'', ''PAYER-9'')])
      = execute_payment tampered_env
        (callback_request [(''paymentId'', ''PAY-1''), (''PayerID'', ''PAYER-9'')])"
  by (simp add: execute_payment_def execute_payment_try_def payment_successful_def
      first_transaction_def decode_custom_def example_defs)

section \<open>Creating a payment\<close>

lemma sku_Mod: "py_replace_char (CHR '' '') (CHR ''_'') (py_lower ''Mod'') = ''mod''"
  by code_simp

lemma str_price_Mod: "py_str_float other (Fin 3 0) = ''3.0''"
  by (simp add: py_str_float_def float_int_value_def str_int_def str_nat.simps digit_char_def)

text \<open>
  C3 (as the code has it). When the \<^verbatim>\<open>product\<close> field of the request is empty
  (absent, \<^verbatim>\<open>null\<close>, the empty string or any other falsy value), or is a hashable value
  (a string, a number or a boolean) that is not a key of the catalog,
  \<^verbatim>\<open>create_payment\<close> answers 400 with the error \<^verbatim>\<open>Invalid product\<close>, and the provider
  is not called: the trace of outside calls is empty.
\<close>

theorem create_payment_invalid_product:
  assumes "get_json req = Inr (JObject data)"
    and "\<not> truthy (dict_get data ''product'')
         \<or> (hashable (dict_get data ''product'')
             \<and> (\<forall>s. dict_get data ''product'' = JString s \<longrightarrow> map_of PRODUCTS s = None))"
  shows "create_payment E req =
           (Some (Response (JsonBody (JObject [(''error'', JString ''Invalid product'')])) 400), [])"
proof (cases "truthy (dict_get data ''product'')")
  case False
  with assms(1) show ?thesis
    by (simp add: create_payment_def create_payment_try_def invalid_product_def Let_def
        json_error_def)
next
  case True
  with assms(2) have h: "hashable (dict_get data ''product'')"
    and k: "\<forall>s. dict_get data ''product'' = JString s \<longrightarrow> map_of PRODUCTS s = None"
    by simp_all
  from True h k have "invalid_product (dict_get data ''product'') = Inr True"
    by (cases "dict_get data ''product''") (simp_all add: invalid_product_def)
  with assms(1) show ?thesis
    by (simp add: create_payment_def create_payment_try_def Let_def json_error_def)
qed

theorem create_payment_invalid_product_witness:
  "get_json (json_request [(''product'', JString ''Sword''), (''username'', JString ''alice'')])
     = Inr (JObject [(''product'', JString ''Sword''), (''username'', JString ''alice'')])
   \<and> truthy (dict_get [(''product'', JString ''Sword''), (''username'', JString ''alice'')]
               ''product'')
   \<and> hashable (dict_get [(''product'', JString ''Sword''), (''username'', JString ''alice'')]
                 ''product'')
   \<and> dict_get [(''product'', JString ''Sword''), (''username'', JString ''alice'')] ''product''
     = JString ''Sword''
   \<and> map_of PRODUCTS ''Sword'' = None
   \<and> create_payment example_env
        (json_request [(''product'', JString ''Sword''), (''username'', JString ''alice'')])
      = (Some (Response (JsonBody (JObject [(''error'', JString ''Invalid product'')])) 400), [])"
  using create_payment_invalid_product
    [of "json_request [(''product'', JString ''Sword''), (''username'', JString ''alice'')]"
        "[(''product'', JString ''Sword''), (''username'', JString ''alice'')]" example_env]
  by (simp add: get_json_def json_request_def dict_get_def PRODUCTS_def)

text \<open>The claim for every value that is not a key of the catalog fails at a non-empty
  list: it cannot be hashed, the test against the catalog raises \<^verbatim>\<open>TypeError\<close>, and
  the answer is the generic 500. The provider is not called there either.\<close>

theorem create_payment_invalid_product_counterexample:
  "create_payment example_env
     (json_request [(''product'', JArray [JString ''Mod'']), (''username'', JString ''alice'')])
   = (Some (Response (JsonBody (JObject [(''error'', JString ''Internal server error'')])) 500),
      [])"
  by (simp add: create_payment_def create_payment_try_def invalid_product_def Let_def
      get_json_def json_request_def dict_get_def dict_get_default_def json_error_def)

text \<open>So it is for every non-empty list or dict, and the provider is called only for a
  catalog key.\<close>

lemma create_payment_unhashable_product:
  assumes "get_json req = Inr (JObject data)"
    and "dict_get data ''product'' = JArray (v # vs) \<or> dict_get data ''product'' = JObject (kv # kvs)"
  shows "create_payment E req = (Some (json_error ''Internal server error'' 500), [])"
  using assms
  by (auto simp: create_payment_def create_payment_try_def invalid_product_def Let_def)

lemma create_payment_provider_called:
  assumes "snd (create_payment E req) \<noteq> []"
  shows "\<exists>data s. get_json req = Inr (JObject data) \<and> dict_get data ''product'' = JString s
           \<and> s \<noteq> [] \<and> map_of PRODUCTS s \<noteq> None"
  using assms
  by (auto simp: create_payment_def create_payment_try_def invalid_product_def Let_def
      split: sum.splits json.splits bool.splits option.splits if_splits prod.splits)

text \<open>
  C4 (as the code has it). For product \<^verbatim>\<open>Mod\<close> and user name \<^verbatim>\<open>alice\<close> the handler
  hands the provider one payment with a single transaction and a single line item: name
  \<^verbatim>\<open>Mod\<close>, sku \<^verbatim>\<open>mod\<close>, currency \<^verbatim>\<open>USD\<close>, quantity 1, and custom field
  \<^verbatim>\<open>alice|Mod\<close>. The item price and the total are \<^verbatim>\<open>str(3.00)\<close>, which is the string
  \<^verbatim>\<open>3.0\<close>, whatever the provider answers.
\<close>

theorem create_payment_mod_alice:
  "snd (create_payment E
          \<lparr>is_json = True,
           json_body = Some (JObject [(''product'', JString ''Mod''),
                                      (''username'', JString ''alice'')]),
           args = query, url_root = root\<rparr>)
   = [PaymentCreate
        \<lparr>pi_intent = ''sale'',
         pi_payment_method = ''paypal'',
         pi_return_url = root @ ''execute-payment'',
         pi_cancel_url = root @ ''cancel-payment'',
         pi_transactions =
           [\<lparr>txi_items =
               [\<lparr>item_name = ''Mod'', item_sku = ''mod'', item_price = ''3.0'',
                 item_currency = ''USD'', item_quantity = 1,
                 item_description = ''Get Fly, Larger Anti-Raid Zone, Teleport and Mod Kits''\<rparr>],
             txi_total = ''3.0'',
             txi_currency = ''USD'',
             txi_description = ''Mod purchase for alice'',
             txi_custom = ''alice|Mod''\<rparr>]\<rparr>]"
  by (simp add: create_payment_def create_payment_try_def get_json_def dict_get_def
      dict_get_default_def invalid_product_def PRODUCTS_def submit_payment_def build_payment_def
      custom_metadata_def sku_Mod str_price_Mod split: sum.splits create_result.splits)

text \<open>The claim as the specification states it, with price and total \<^verbatim>\<open>3.00\<close>, fails on
  this request: both strings are \<^verbatim>\<open>3.0\<close>.\<close>

theorem create_payment_mod_alice_counterexample:
  "\<exists>p t i. snd (create_payment example_env
             (json_request [(''product'', JString ''Mod''), (''username'', JString ''alice'')]))
           = [PaymentCreate p]
     \<and> pi_transactions p = [t] \<and> txi_items t = [i]
     \<and> item_price i = ''3.0'' \<and> item_price i \<noteq> ''3.00''
     \<and> txi_total t = ''3.0'' \<and> txi_total t \<noteq> ''3.00''"
  by (simp add: create_payment_def create_payment_try_def get_json_def dict_get_def
      dict_get_default_def invalid_product_def PRODUCTS_def submit_payment_def build_payment_def
      custom_metadata_def sku_Mod str_price_Mod json_request_def example_env_def)

section \<open>Reporting a purchase\<close>

lemma dict_index_truthy:
  "truthy (dict_get data k) \<Longrightarrow> dict_index data k = Inr (dict_get data k)"
  by (auto simp: dict_get_def dict_index_def split: option.splits)

lemma strip_value_not_string: "(\<forall>s. v \<noteq> JString s) \<Longrightarrow> strip_value v = Inl AttributeError"
  by (cases v) auto

lemma no_missing_fields:
  "truthy (dict_get data ''username'') \<Longrightarrow> truthy (dict_get data ''item'')
   \<Longrightarrow> truthy (dict_get data ''price'')
   \<Longrightarrow> filter (\<lambda>field. \<not> truthy (dict_get data field)) required_fields = []"
  by (simp add: required_fields_def)

lemma py_strip_bob: "py_strip ''bob'' = ''bob''"
  by (simp add: py_strip_def is_space_def)

lemma py_strip_Mod: "py_strip ''Mod'' = ''Mod''"
  by (simp add: py_strip_def is_space_def)

text \<open>
  C9 (as the code has it). A POST to \<^verbatim>\<open>/purchase\<close> with user name \<^verbatim>\<open>""\<close>, item
  \<^verbatim>\<open>Mod\<close> and price 3 is answered 400, and the error names the user name as a missing
  required field: the empty string is falsy, so the missing-fields check answers before
  the check that produces \<^verbatim>\<open>Username cannot be empty\<close>.
\<close>

theorem handle_purchase_empty_username:
  "handle_purchase E
     \<lparr>is_json = True,
      json_body = Some (JObject [(''username'', JString []), (''item'', JString ''Mod''),
                                 (''price'', JInt 3)]),
      args = query, url_root = root\<rparr>
   = (Response (JsonBody (JObject
        [(''error'', JString ''Missing required fields: username''),
         (''required_fields'',
          JArray [JString ''username'', JString ''item'', JString ''price''])])) 400,
      [])"
  by (simp add: handle_purchase_def handle_purchase_try_def get_json_def dict_get_def
      required_fields_def missing_fields_response_def)

text \<open>The error of that response is not \<^verbatim>\<open>Username cannot be empty\<close>, and the word
  \<^verbatim>\<open>empty\<close> does not occur in it.\<close>

theorem handle_purchase_empty_username_counterexample:
  "\<exists>msg. error_of (fst (handle_purchase example_env
        (json_request [(''username'', JString []), (''item'', JString ''Mod''),
                       (''price'', JInt 3)])))
      = Some msg
    \<and> msg \<noteq> ''Username cannot be empty''
    \<and> \<not> sublist ''empty'' msg \<and> \<not> sublist ''Empty'' msg"
proof -
  have "error_of (fst (handle_purchase example_env
        (json_request [(''username'', JString []), (''item'', JString ''Mod''),
                       (''price'', JInt 3)])))
      = Some ''Missing required fields: username''"
    by (simp add: handle_purchase_def handle_purchase_try_def get_json_def dict_get_def
      required_fields_def missing_fields_response_def json_request_def error_of_def)
  moreover have "\<not> sublist ''empty'' ''Missing required fields: username''" by code_simp
  moreover have "\<not> sublist ''Empty'' ''Missing required fields: username''" by code_simp
  ultimately show ?thesis by simp
qed

text \<open>\<^verbatim>\<open>Username cannot be empty\<close> is the answer to a user name that is not empty and
  consists of white space.\<close>

lemma handle_purchase_blank_username:
  assumes "get_json req = Inr (JObject data)"
    and "dict_get data ''username'' = JString u" and "u \<noteq> []" and "py_strip u = []"
    and "dict_get data ''item'' = JString i" and "i \<noteq> []"
    and "truthy (dict_get data ''price'')"
  shows "handle_purchase E req = (json_error ''Username cannot be empty'' 400, [])"
  using assms
  by (auto simp: handle_purchase_def handle_purchase_try_def get_json_def dict_get_def
      dict_index_def required_fields_def split: option.splits if_splits)

text \<open>
  C10 (as the code has it). When the body is a JSON object whose three required fields
  are all truthy and the user name or the item is not a string, \<^verbatim>\<open>.strip()\<close> raises
  \<^verbatim>\<open>AttributeError\<close>, the outer \<^verbatim>\<open>except\<close> takes it, and the answer is 500 with the
  error \<^verbatim>\<open>Internal server error\<close>; the webhook is not called.
\<close>

theorem handle_purchase_non_string_field:
  assumes "get_json req = Inr (JObject data)"
    and "truthy (dict_get data ''username'')" and "truthy (dict_get data ''item'')"
    and "truthy (dict_get data ''price'')"
    and "(\<forall>s. dict_get data ''username'' \<noteq> JString s)
         \<or> (\<forall>s. dict_get data ''item'' \<noteq> JString s)"
  shows "handle_purchase E req =
           (Response (JsonBody (JObject
              [(''error'', JString ''Internal server error''),
               (''message'',
                JString ''An unexpected error occurred while processing the purchase'')])) 500,
            [])"
proof -
  from assms(1) have js: "is_json req"
    by (auto simp: get_json_def split: if_splits)
  have "handle_purchase_try E req = (Inl AttributeError, [])"
  proof (cases "\<forall>s. dict_get data ''username'' \<noteq> JString s")
    case True
    then show ?thesis
      using assms(1-4) js
      by (simp add: handle_purchase_try_def no_missing_fields dict_index_truthy
          strip_value_not_string)
  next
    case False
    then obtain u where u: "dict_get data ''username'' = JString u" by blast
    from False assms(5) have "\<forall>s. dict_get data ''item'' \<noteq> JString s" by blast
    then show ?thesis
      using assms(1-4) js u
      by (simp add: handle_purchase_try_def no_missing_fields dict_index_truthy
          strip_value_not_string)
  qed
  then show ?thesis
    by (simp add: handle_purchase_def json_error_message_def)
qed

theorem handle_purchase_non_string_field_witness:
  "get_json (json_request [(''username'', JInt 5), (''item'', JString ''Mod''), (''price'', JInt 3)])
     = Inr (JObject [(''username'', JInt 5), (''item'', JString ''Mod''), (''price'', JInt 3)])
   \<and> truthy (dict_get [(''username'', JInt 5), (''item'', JString ''Mod''), (''price'', JInt 3)]
               ''username'')
   \<and> (\<forall>s. dict_get [(''username'', JInt 5), (''item'', JString ''Mod''), (''price'', JInt 3)]
              ''username'' \<noteq> JString s)
   \<and> resp_status (fst (handle_purchase example_env
        (json_request [(''username'', JInt 5), (''item'', JString ''Mod''),
                       (''price'', JInt 3)]))) = 500
   \<and> error_of (fst (handle_purchase example_env
        (json_request [(''username'', JInt 5), (''item'', JString ''Mod''),
                       (''price'', JInt 3)])))
       = Some ''Internal server error''"
  using handle_purchase_non_string_field
    [of "json_request [(''username'', JInt 5), (''item'', JString ''Mod''), (''price'', JInt 3)]"
        "[(''username'', JInt 5), (''item'', JString ''Mod''), (''price'', JInt 3)]" example_env]
  by (simp add: get_json_def json_request_def dict_get_def error_of_def)

text \<open>The claim as stated, for every user name that is present and not a string, fails
  at the number 0: it is falsy, and the missing-fields check answers 400.\<close>

theorem handle_purchase_non_string_field_counterexample:
  "handle_purchase example_env
     (json_request [(''username'', JInt 0), (''item'', JString ''Mod''), (''price'', JInt 3)])
   = (Response (JsonBody (JObject
        [(''error'', JString ''Missing required fields: username''),
         (''required_fields'',
          JArray [JString ''username'', JString ''item'', JString ''price''])])) 400,
      [])"
  by (simp add: handle_purchase_def handle_purchase_try_def get_json_def dict_get_def
      required_fields_def missing_fields_response_def json_request_def)

text \<open>
  C2. A request with user name \<^verbatim>\<open>bob\<close>, item \<^verbatim>\<open>Mod\<close> and the number 0 as price is
  valid by the specification (the price is not negative), yet the handler answers 400
  and reports the price as a missing field, whatever the webhook would do: the
  missing-fields check tests truthiness, and 0 is falsy.
\<close>

theorem handle_purchase_zero_price:
  "handle_purchase E
     \<lparr>is_json = True,
      json_body = Some (JObject [(''username'', JString ''bob''), (''item'', JString ''Mod''),
                                 (''price'', JInt 0)]),
      args = query, url_root = root\<rparr>
   = (Response (JsonBody (JObject
        [(''error'', JString ''Missing required fields: price''),
         (''required_fields'',
          JArray [JString ''username'', JString ''item'', JString ''price''])])) 400,
      [])"
  by (simp add: handle_purchase_def handle_purchase_try_def get_json_def dict_get_def
      required_fields_def missing_fields_response_def)

text \<open>The same price written as the string \<^verbatim>\<open>"0"\<close> passes the check (a non-empty string
  is truthy), is coerced to 0.0, and the purchase succeeds.\<close>

lemma handle_purchase_zero_price_string:
  "handle_purchase example_env
     (json_request [(''username'', JString ''bob''), (''item'', JString ''Mod''),
                    (''price'', JString ''0'')])
   = (purchase_success ''bob'' ''Mod'' (Fin 0 0),
      [WebhookPost ''https://discord.example/api/webhooks/1''
         (PurchaseMade ''bob'' ''Mod'' ''0.00'')])"
  by (simp add: handle_purchase_def handle_purchase_try_def get_json_def dict_get_def
      dict_index_def required_fields_def json_request_def example_env_def
      send_purchase_notification_def py_strip_bob py_strip_Mod str_nat.simps two_digits_def
      digit_char_def)

text \<open>For a truthy price the equivalence of the specification holds: with a user name
  and an item that are not empty after trimming and a price that coerces to a float
  that is not negative, the answer is 200 exactly when the webhook is configured and
  answers 200 or 204.\<close>

lemma handle_purchase_success_iff:
  assumes "get_json req = Inr (JObject data)"
    and "dict_get data ''username'' = JString u" and "py_strip u \<noteq> []"
    and "dict_get data ''item'' = JString i" and "py_strip i \<noteq> []"
    and "truthy (dict_get data ''price'')"
    and "py_float (float_of_str E) (dict_get data ''price'') = Inr x" and "\<not> float_lt0 x"
  shows "resp_status (fst (handle_purchase E req)) = 200
     \<longleftrightarrow> DISCORD_WEBHOOK E \<noteq> []
         \<and> (\<exists>code txt. requests_post E (DISCORD_WEBHOOK E)
                          (PurchaseMade (py_strip u) (py_strip i) (fmt_2f x))
                        = HttpResponse code txt
                        \<and> (code = 200 \<or> code = 204))"
proof -
  from assms(1) have js: "is_json req"
    by (auto simp: get_json_def split: if_splits)
  from assms(3) have u: "u \<noteq> []" by (auto simp: py_strip_def)
  from assms(5) have i: "i \<noteq> []" by (auto simp: py_strip_def)
  have nm: "filter (\<lambda>field. \<not> truthy (dict_get data field)) required_fields = []"
    using assms(2,4,6) u i by (simp add: required_fields_def)
  have ix: "dict_index data ''username'' = Inr (JString u)"
           "dict_index data ''item'' = Inr (JString i)"
           "dict_index data ''price'' = Inr (dict_get data ''price'')"
    using dict_index_truthy [of data "''username''"] dict_index_truthy [of data "''item''"]
      dict_index_truthy [of data "''price''"] assms(2,4,6) u i by simp_all
  have body: "handle_purchase_try E req =
      (if DISCORD_WEBHOOK E = [] then
         (Inr (json_error_message ''Discord webhook not configured''
                 ''Please set DISCORD_WEBHOOK_URL environment variable'' 500), [])
       else send_purchase_notification E (py_strip u) (py_strip i) x)"
    using assms js nm ix by (simp add: handle_purchase_try_def)
  show ?thesis
    by (auto simp: handle_purchase_def body send_purchase_notification_def json_error_message_def
        purchase_success_def Let_def split: post_result.splits if_splits)
qed

end
